theory Spec2Isabelle
  imports Main "HOL-Library.Word" "HOL-Library.Sublist"
begin

section \<open>Ledger configuration accessors (package ledgerconfig)\<close>

text \<open>
  The accessors of package \<open>ledgerconfig\<close> read the process configuration through the
  viper library. Viper is not part of the repository, so its four accessors used here
  are taken as they are: a record of functions from configuration keys to values.
  \<open>config.GetPath\<close> and \<open>filepath.Join\<close>, used for the block store path, are taken the
  same way. Go's \<open>int\<close> is modelled as \<open>int\<close>: the accessors do no arithmetic, and the
  only constant, \<open>64 * 1024 * 1024\<close>, fits every Go \<open>int\<close>.
\<close>

record viper =
  viper_IsSet :: "string \<Rightarrow> bool"
  viper_GetInt :: "string \<Rightarrow> int"
  viper_GetBool :: "string \<Rightarrow> bool"
  viper_GetString :: "string \<Rightarrow> string"
  config_GetPath :: "string \<Rightarrow> string"
  filepath_Join :: "string \<Rightarrow> string \<Rightarrow> string"

definition confPeerFileSystemPath :: string where
  "confPeerFileSystemPath = ''peer.fileSystemPath''"

definition confLedgersData :: string where
  "confLedgersData = ''ledgersData''"

definition confChains :: string where
  "confChains = ''chains''"

definition confMaxBlockfileSize :: string where
  "confMaxBlockfileSize = ''ledger.maxBlockfileSize''"

definition confBlockArchiverURL :: string where
  "confBlockArchiverURL = ''ledger.blockArchiver.url''"

definition confBlockArchiverDir :: string where
  "confBlockArchiverDir = ''ledger.blockArchiver.dir''"

definition confArchiverEach :: string where
  "confArchiverEach = ''peer.archiver.each''"

definition confArchiverKeep :: string where
  "confArchiverKeep = ''peer.archiver.keep''"

definition defaultBlockArchiverURL :: string where
  "defaultBlockArchiverURL = ''ledger-bank:222''"

definition defaultBlockArchiverDir :: string where
  "defaultBlockArchiverDir = ''/tmp''"

definition defaultArchiverEach :: int where
  "defaultArchiverEach = 30"

definition defaultArchiverKeep :: int where
  "defaultArchiverKeep = 10"

definition GetRootPath :: "viper \<Rightarrow> string" where
  "GetRootPath v =
     (let sysPath = config_GetPath v confPeerFileSystemPath
      in filepath_Join v sysPath confLedgersData)"

definition GetBlockStorePath :: "viper \<Rightarrow> string" where
  "GetBlockStorePath v = filepath_Join v (GetRootPath v) confChains"

definition GetMaxBlockfileSize :: "viper \<Rightarrow> int" where
  "GetMaxBlockfileSize v =
     (let maxBlockfileSize = viper_GetInt v confMaxBlockfileSize;
          maxBlockfileSize =
            (if \<not> viper_IsSet v confMaxBlockfileSize then 64 * 1024 * 1024
             else maxBlockfileSize)
      in maxBlockfileSize)"

definition GetBlockArchiverURL :: "viper \<Rightarrow> string" where
  "GetBlockArchiverURL v =
     (let url = viper_GetString v confBlockArchiverURL;
          url = (if \<not> viper_IsSet v confBlockArchiverURL then defaultBlockArchiverURL else url)
      in url)"

definition GetBlockArchiverDir :: "viper \<Rightarrow> string" where
  "GetBlockArchiverDir v =
     (let dir = viper_GetString v confBlockArchiverDir;
          dir = (if \<not> viper_IsSet v confBlockArchiverDir then defaultBlockArchiverDir else dir)
      in dir)"

definition GetArchivingParameters :: "viper \<Rightarrow> int \<times> int" where
  "GetArchivingParameters v =
     (let numArchiving = viper_GetInt v confArchiverEach;
          numArchiving =
            (if \<not> viper_IsSet v confArchiverEach then defaultArchiverEach else numArchiving);
          numKeeping = viper_GetInt v confArchiverKeep;
          numKeeping =
            (if \<not> viper_IsSet v confArchiverKeep then defaultArchiverKeep else numKeeping)
      in (numArchiving, numKeeping))"

section \<open>Archiver initialisation (package archiver)\<close>

text \<open>
  \<open>initBlockArchiverParams\<close> assigns the package-level variables of package
  \<open>blockarchive\<close>. Their declarations are not among the sources, so the values they hold
  before the call are a parameter: the function takes the variables as a record and
  returns the record after the assignments. A variable the function does not assign
  keeps the value it had.
\<close>

record blockarchive =
  IsArchiver :: bool
  IsClient :: bool
  NumBlockfileEachArchiving :: int
  NumKeepLatestBlocks :: int
  BlockArchiverDir :: string
  BlockArchiverURL :: string
  BlockStorePath :: string

definition initBlockArchiverParams :: "viper \<Rightarrow> blockarchive \<Rightarrow> blockarchive" where
  "initBlockArchiverParams v g =
     (let g = g\<lparr>IsArchiver := viper_GetBool v ''peer.archiver.enabled''\<rparr>;
          g = (if IsArchiver g
               then (case GetArchivingParameters v of
                       (each, keep) \<Rightarrow>
                         g\<lparr>NumBlockfileEachArchiving := each, NumKeepLatestBlocks := keep\<rparr>)
               else g\<lparr>IsClient := viper_GetBool v ''peer.archiving.enabled''\<rparr>);
          g = g\<lparr>BlockArchiverDir := GetBlockArchiverDir v\<rparr>;
          g = g\<lparr>BlockArchiverURL := GetBlockArchiverURL v\<rparr>;
          g = g\<lparr>BlockStorePath := GetBlockStorePath v\<rparr>
      in g)"

text \<open>
  The values of the package-level variables when the process starts, as far as the
  role flags go: Go gives a \<open>bool\<close> variable declared without an initialiser the value
  \<open>false\<close>, an \<open>int\<close> the value 0 and a \<open>string\<close> the empty string.
\<close>

definition zero_blockarchive :: blockarchive where
  "zero_blockarchive =
     \<lparr>IsArchiver = False, IsClient = False, NumBlockfileEachArchiving = 0,
      NumKeepLatestBlocks = 0, BlockArchiverDir = [], BlockArchiverURL = [],
      BlockStorePath = []\<rparr>"

text \<open>A configuration in which no key is set, with the values viper returns then.\<close>

definition unset_viper :: viper where
  "unset_viper =
     \<lparr>viper_IsSet = (\<lambda>k. False), viper_GetInt = (\<lambda>k. 0), viper_GetBool = (\<lambda>k. False),
      viper_GetString = (\<lambda>k. []), config_GetPath = (\<lambda>k. []),
      filepath_Join = (\<lambda>a b. a @ ''/'' @ b)\<rparr>"

section \<open>The ledger checker (command ledgerfsck)\<close>

subsection \<open>Data and the calls the checker makes\<close>

text \<open>
  The checker reads a ledger it does not implement. The ledger's two queries, the header
  hash, protobuf marshalling, the local signing identity and the block verification of
  the message crypto service are therefore parameters, collected in \<open>ledger_env\<close>. Of a
  block, the checker uses the header's number and previous hash; blocks are taken as the
  ledger returns them, with their header present. Block numbers and the height are Go
  \<open>uint64\<close> values, modelled as \<open>64 word\<close>.
\<close>

type_synonym bytes = "8 word list"
type_synonym error = string

record BlockHeader =
  Number :: "64 word"
  PreviousHash :: bytes
  DataHash :: bytes

record Block =
  Header :: BlockHeader
  Data :: "bytes list"
  Metadata :: "bytes list"

record BlockchainInfo =
  Height :: "64 word"
  CurrentBlockHash :: bytes
  PreviousBlockHash :: bytes

record ledger_env =
  GetBlockchainInfo :: "error + BlockchainInfo"
  GetLocalSigningIdentity :: "error option"
  GetBlockByNumber :: "64 word \<Rightarrow> error + Block"
  BlockHeaderHash :: "BlockHeader \<Rightarrow> bytes"
  Marshal :: "Block \<Rightarrow> error + bytes"
  VerifyBlock :: "string \<Rightarrow> 64 word \<Rightarrow> bytes \<Rightarrow> error option"

text \<open>
  What a run does, beyond returning, is recorded as the sequence of calls it makes to its
  environment: the ledger and crypto calls with their arguments, and every logger call
  with its level, its format string and its arguments, in the order of the source. A
  process ends by returning from \<open>main\<close>, by \<open>os.Exit\<close> with a code, or by a panic.
\<close>

datatype arg = ArgStr string | ArgU64 "64 word" | ArgHex bytes | ArgErr error

datatype level = Debug | Info | Error

datatype event =
    Call_GetBlockchainInfo
  | Call_GetLocalSigningIdentityOrPanic
  | Call_GetBlockByNumber "64 word"
  | Call_bytes_Equal bytes bytes
  | Call_Marshal Block
  | Call_VerifyBlock string "64 word" bytes
  | Log level string "arg list"
  | Flag_failf string "arg list"
  | Flag_usage

datatype outcome = Return | Exit int | Panic error



fun process_status :: "outcome \<Rightarrow> int" where
  "process_status Return = 0"
| "process_status (Exit code) = code"
| "process_status (Panic err) = 2"

record ledgerFsck =
  channelName :: string
  mspConfigPath :: string
  mspID :: string
  mspType :: string

subsection \<open>Command-line flags\<close>

text \<open>
  \<open>ReadConfiguration\<close> registers four string flags on the command-line flag set of Go's
  \<open>flag\<close> package and parses the arguments. Each flag is bound to a field of the
  \<open>ledgerFsck\<close> value: registering it stores the default in the field, parsing it stores
  the argument. \<open>parseOne\<close> and \<open>flag_Parse\<close> follow \<open>FlagSet.parseOne\<close> and
  \<open>FlagSet.Parse\<close> of the Go release the repository's pipeline builds with (1.12), for
  string flags and the \<open>ExitOnError\<close> handling of the command-line set: a parse error
  prints the message and the usage and ends the process with code 2.
\<close>

type_synonym FlagSet = "string \<rightharpoonup> (string \<Rightarrow> ledgerFsck \<Rightarrow> ledgerFsck)"

definition flag_StringVar ::
  "(string \<Rightarrow> ledgerFsck \<Rightarrow> ledgerFsck) \<Rightarrow> string \<Rightarrow> string
     \<Rightarrow> FlagSet \<times> ledgerFsck \<Rightarrow> FlagSet \<times> ledgerFsck" where
  "flag_StringVar p name val st =
     (case st of (formal, fsck) \<Rightarrow> (formal(name \<mapsto> p), p val fsck))"

text \<open>
  The scan of \<open>parseOne\<close> for an \<open>=\<close> from index 1 on: the name before it and the value
  after it, if there is one.
\<close>

definition split_value :: "string \<Rightarrow> string \<times> string option" where
  "split_value name =
     (let pre = takeWhile (\<lambda>c. c \<noteq> CHR ''='') (drop 1 name)
      in if Suc (length pre) < length name
         then (take (Suc (length pre)) name, Some (drop (Suc (Suc (length pre))) name))
         else (name, None))"

datatype parseOne_result =
    Seen ledgerFsck "string list"
  | NotSeen "string list"
  | Failed string "arg list"
  | ErrHelp

definition parseOne :: "FlagSet \<Rightarrow> ledgerFsck \<Rightarrow> string list \<Rightarrow> parseOne_result" where
  "parseOne formal fsck args =
     (case args of
        [] \<Rightarrow> NotSeen []
      | s # rest \<Rightarrow>
          if length s < 2 \<or> s ! 0 \<noteq> CHR ''-'' then NotSeen args
          else
            (let numMinuses = (if s ! 1 = CHR ''-'' then 2 else 1 :: nat) in
             if s ! 1 = CHR ''-'' \<and> length s = 2 then NotSeen rest
             else
               (let name = drop numMinuses s in
                if length name = 0 \<or> name ! 0 = CHR ''-'' \<or> name ! 0 = CHR ''=''
                then Failed ''bad flag syntax: %s'' [ArgStr s]
                else
                  (case split_value name of
                     (name, val) \<Rightarrow>
                       (case formal name of
                          None \<Rightarrow>
                            if name = ''help'' \<or> name = ''h'' then ErrHelp
                            else Failed ''flag provided but not defined: -%s'' [ArgStr name]
                        | Some p \<Rightarrow>
                            (case val of
                               Some v \<Rightarrow> Seen (p v fsck) rest
                             | None \<Rightarrow>
                                 (case rest of
                                    [] \<Rightarrow> Failed ''flag needs an argument: -%s'' [ArgStr name]
                                  | v # rest' \<Rightarrow> Seen (p v fsck) rest')))))))"

function flag_Parse ::
  "FlagSet \<Rightarrow> ledgerFsck \<Rightarrow> string list \<Rightarrow> event list
     \<Rightarrow> (outcome \<times> event list) + (ledgerFsck \<times> string list \<times> event list)" where
  "flag_Parse formal fsck args tr =
     (case parseOne formal fsck args of
        Seen fsck' args' \<Rightarrow> flag_Parse formal fsck' args' tr
      | NotSeen args' \<Rightarrow> Inr (fsck, args', tr)
      | Failed fmt as \<Rightarrow> Inl (Exit 2, tr @ [Flag_failf fmt as, Flag_usage])
      | ErrHelp \<Rightarrow> Inl (Exit 2, tr @ [Flag_usage]))"
  by pat_completeness auto
termination
  by (relation "measure (\<lambda>(formal, fsck, args, tr). length args)")
    (auto simp: parseOne_def Let_def
      split: list.splits if_splits prod.splits option.splits)

definition ReadConfiguration ::
  "string list \<Rightarrow> ledgerFsck \<Rightarrow> event list
     \<Rightarrow> (outcome \<times> event list) + (error option \<times> ledgerFsck \<times> event list)" where
  "ReadConfiguration args fsck tr =
     (case
        flag_StringVar (\<lambda>v f. f\<lparr>mspType := v\<rparr>) ''mspType'' ''bccsp''
          (flag_StringVar (\<lambda>v f. f\<lparr>mspID := v\<rparr>) ''mspID'' []
            (flag_StringVar (\<lambda>v f. f\<lparr>mspConfigPath := v\<rparr>) ''mspPath'' []
              (flag_StringVar (\<lambda>v f. f\<lparr>channelName := v\<rparr>) ''channelName'' ''testChannel''
                (Map.empty, fsck))))
      of (formal, fsck) \<Rightarrow>
        (case flag_Parse formal fsck args tr of
           Inl stop \<Rightarrow> Inl stop
         | Inr (fsck, rest, tr) \<Rightarrow>
             if mspConfigPath fsck = [] then
               Inr (Some ''MSP folder not configured'', fsck,
                    tr @ [Log Error ''MSP folder not configured'' []])
             else if mspID fsck = [] then
               Inr (Some ''MSPID was not provided'', fsck,
                    tr @ [Log Error ''MSPID was not provided'' []])
             else
               Inr (None, fsck,
                    tr @ [Log Debug ''channel name = %s'' [ArgStr (channelName fsck)],
                          Log Debug ''MSP folder path = %s'' [ArgStr (mspConfigPath fsck)],
                          Log Debug ''MSPID = %s'' [ArgStr (mspID fsck)],
                          Log Debug ''MSP type = %s'' [ArgStr (mspType fsck)]])))"

subsection \<open>The sweep over the chain\<close>

text \<open>
  Each failing branch of \<open>Verify\<close> logs a reason at debug level, logs \<open>FAIL\<close> at info
  level and calls \<open>os.Exit(-1)\<close>.
\<close>

definition fail_exit :: "event list \<Rightarrow> event \<Rightarrow> outcome \<times> event list" where
  "fail_exit tr msg = (Exit (- 1), tr @ [msg, Log Info ''FAIL'' []])"

text \<open>
  One pass through the body of the loop of \<open>Verify\<close>, at block \<open>blockIndex\<close> with the
  hash \<open>prevHash\<close> carried from the block before: either the process ends (left), or the
  loop goes on with the new \<open>prevHash\<close> (right).
\<close>

definition verify_body ::
  "ledger_env \<Rightarrow> ledgerFsck \<Rightarrow> 64 word \<Rightarrow> bytes \<Rightarrow> event list
     \<Rightarrow> (outcome \<times> event list) + (bytes \<times> event list)" where
  "verify_body e fsck blockIndex prevHash tr =
     (let tr = tr @ [Call_GetBlockByNumber blockIndex] in
      case GetBlockByNumber e blockIndex of
        Inl err \<Rightarrow>
          Inl (fail_exit tr
            (Log Debug ''failed to read block number %d from ledger, with error''
               [ArgU64 blockIndex, ArgErr err]))
      | Inr block \<Rightarrow>
         (let tr = tr @ [Call_bytes_Equal prevHash (PreviousHash (Header block))] in
          if prevHash \<noteq> PreviousHash (Header block) then
            Inl (fail_exit tr
              (Log Debug
                 (''block number [%d]: hash comparison has failed, previous block hash %x doesn't'' @
                  '' equal to hash claimed within block header %x'')
                 [ArgU64 blockIndex, ArgHex prevHash, ArgHex (PreviousHash (Header block))]))
          else
            (let tr = tr @ [Log Debug ''block number [%d]: previous hash matched''
                              [ArgU64 blockIndex],
                            Call_Marshal block] in
             case Marshal e block of
               Inl err \<Rightarrow>
                 Inl (fail_exit tr (Log Debug ''failed marshaling block, due to'' [ArgErr err]))
             | Inr signedBlock \<Rightarrow>
                (let tr = tr @ [Call_VerifyBlock (channelName fsck) (Number (Header block))
                                  signedBlock] in
                 case VerifyBlock e (channelName fsck) (Number (Header block)) signedBlock of
                   Some err \<Rightarrow>
                     Inl (fail_exit tr
                       (Log Debug ''failed to verify block with sequence number %d. %s''
                          [ArgU64 blockIndex, ArgErr err]))
                 | None \<Rightarrow>
                     Inr (BlockHeaderHash e (Header block),
                          tr @ [Log Debug
                                  (''Block [seq = %d], hash = [%x], previous hash = [%x],'' @
                                   '' VERIFICATION PASSED'')
                                  [ArgU64 blockIndex, ArgHex (BlockHeaderHash e (Header block)),
                                   ArgHex (PreviousHash (Header block))]])))))"

function verify_loop ::
  "ledger_env \<Rightarrow> ledgerFsck \<Rightarrow> 64 word \<Rightarrow> 64 word \<Rightarrow> bytes \<Rightarrow> event list
     \<Rightarrow> outcome \<times> event list" where
  "verify_loop e fsck height blockIndex prevHash tr =
     (if blockIndex < height then
        (case verify_body e fsck blockIndex prevHash tr of
           Inl stop \<Rightarrow> stop
         | Inr (prevHash', tr') \<Rightarrow> verify_loop e fsck height (blockIndex + 1) prevHash' tr')
      else (Return, tr))"
  by pat_completeness auto
termination
proof (relation "measure (\<lambda>(e, fsck, height, blockIndex, prevHash, tr).
                    unat height - unat blockIndex)")
  show "wf (measure (\<lambda>(e, fsck, height, blockIndex, prevHash, tr).
              unat height - unat blockIndex))"
    by simp
next
  fix e :: ledger_env and fsck :: ledgerFsck and height blockIndex :: "64 word"
    and prevHash :: bytes and tr :: "event list" and x2 x y
  assume lt: "blockIndex < height"
  then have less: "unat blockIndex < unat height"
    by (simp add: word_less_nat_alt)
  moreover have "unat (blockIndex + 1) = Suc (unat blockIndex)"
  proof -
    have "unat height < 2 ^ 64"
      using unsigned_less [of height, where ?'a = nat] by simp
    with less have "unat blockIndex + 1 < 2 ^ 64"
      by simp
    then show ?thesis
      by (simp add: unat_word_ariths)
  qed
  ultimately show "((e, fsck, height, blockIndex + 1, x, y),
                    e, fsck, height, blockIndex, prevHash, tr)
       \<in> measure (\<lambda>(e, fsck, height, blockIndex, prevHash, tr).
                    unat height - unat blockIndex)"
    by simp
qed

text \<open>
  \<open>Verify\<close> asks the ledger for its height, takes the local signing identity
  (\<open>GetLocalSigningIdentityOrPanic\<close> panics when there is none), builds the message
  crypto service (\<open>gossip.NewMCS\<close> only builds a value), reads block 0 and runs the loop
  from block 1. \<open>bytes.Equal\<close> compares contents, which is equality of lists. The loop
  counter never wraps around: it is increased only while it is below the height.
\<close>

definition Verify :: "ledger_env \<Rightarrow> ledgerFsck \<Rightarrow> event list \<Rightarrow> outcome \<times> event list" where
  "Verify e fsck tr =
     (let tr = tr @ [Call_GetBlockchainInfo] in
      case GetBlockchainInfo e of
        Inl err \<Rightarrow>
          fail_exit tr
            (Log Debug (''could not obtain blockchain information '' @
                        ''channel name %s, due to %s'')
               [ArgStr (channelName fsck), ArgErr err])
      | Inr blockchainInfo \<Rightarrow>
         (let tr = tr @ [Log Debug (''ledger height of channel %s, is %d'' @ [CHR 0x0A])
                           [ArgStr (channelName fsck), ArgU64 (Height blockchainInfo)],
                         Call_GetLocalSigningIdentityOrPanic] in
          case GetLocalSigningIdentity e of
            Some err \<Rightarrow> (Panic err, tr)
          | None \<Rightarrow>
             (let tr = tr @ [Call_GetBlockByNumber 0] in
              case GetBlockByNumber e 0 of
                Inl err \<Rightarrow>
                  fail_exit tr
                    (Log Debug ''failed to read genesis block number, with error'' [ArgErr err])
              | Inr block \<Rightarrow>
                 (let prevHash = BlockHeaderHash e (Header block) in
                  case verify_loop e fsck (Height blockchainInfo) 1 prevHash tr of
                    (Return, tr) \<Rightarrow> (Return, tr @ [Log Info ''PASS'' []])
                  | stop \<Rightarrow> stop))))"

subsection \<open>The command\<close>

text \<open>
  \<open>main\<close> runs five steps before the sweep and ends the process with \<open>os.Exit(-1)\<close> when
  one of them returns an error. \<open>ReadConfiguration\<close> is modelled above. The other four
  (\<open>Initialize\<close>, \<open>InitCrypto\<close>, \<open>OpenLedger\<close>, \<open>GetLatestChannelConfigBundle\<close>) set up
  logging, the configuration, the membership service provider and the ledger through
  packages outside the sources; what each of them returns, or that it panics, is a
  parameter, and the calls and log lines they make are not recorded. The arguments are
  those of the command line after the program name.
\<close>

datatype step = Ok | Err error | Panics error


text \<open>The value of \<open>&ledgerFsck{}\<close>: every field holds the empty string.\<close>

definition zero_ledgerFsck :: ledgerFsck where
  "zero_ledgerFsck = \<lparr>channelName = [], mspConfigPath = [], mspID = [], mspType = []\<rparr>"


subsection \<open>The sweep, block by block\<close>






text \<open>
  What \<open>Verify\<close> does before the loop on a ledger that reports its height and gives a
  signing identity: it asks for the height, logs it, takes the signing identity and reads
  block 0.
\<close>

definition Verify_start :: "ledgerFsck \<Rightarrow> BlockchainInfo \<Rightarrow> event list" where
  "Verify_start fsck info =
     [Call_GetBlockchainInfo,
      Log Debug (''ledger height of channel %s, is %d'' @ [CHR 0x0A])
        [ArgStr (channelName fsck), ArgU64 (Height info)],
      Call_GetLocalSigningIdentityOrPanic,
      Call_GetBlockByNumber 0]"


section \<open>Example inputs\<close>

text \<open>
  Concrete configurations and ledgers on which the definitions above are evaluated.
\<close>

definition archiver_viper :: viper where
  "archiver_viper = unset_viper\<lparr>viper_GetBool := (\<lambda>k. True)\<rparr>"


definition set_viper :: viper where
  "set_viper =
     unset_viper\<lparr>viper_IsSet := (\<lambda>k. True), viper_GetInt := (\<lambda>k. 1024),
       viper_GetBool := (\<lambda>k. True), viper_GetString := (\<lambda>k. ''archive:9000'')\<rparr>"

text \<open>
  A ledger of height 3 whose blocks are linked: the header hash of block \<open>n\<close> is the one
  byte \<open>n\<close>, and block \<open>n\<close> carries the hash of block \<open>n - 1\<close>. Every block verifies.
\<close>

definition example_block :: "64 word \<Rightarrow> Block" where
  "example_block n =
     \<lparr>Header = \<lparr>Number = n, PreviousHash = (if n = 0 then [] else [ucast (n - 1)]),
                DataHash = []\<rparr>,
      Data = [], Metadata = []\<rparr>"

definition example_info :: BlockchainInfo where
  "example_info = \<lparr>Height = 3, CurrentBlockHash = [2], PreviousBlockHash = [1]\<rparr>"

definition example_env :: ledger_env where
  "example_env =
     \<lparr>GetBlockchainInfo = Inr example_info,
      GetLocalSigningIdentity = None,
      GetBlockByNumber = (\<lambda>n. if n < 3 then Inr (example_block n) else Inl ''no such block''),
      BlockHeaderHash = (\<lambda>h. [ucast (Number h)]),
      Marshal = (\<lambda>b. Inr [ucast (Number (Header b))]),
      VerifyBlock = (\<lambda>ch n sb. None)\<rparr>"



text \<open>The same ledger with block 1 in an archived file that cannot be fetched.\<close>

definition unavailable_env :: ledger_env where
  "unavailable_env =
     example_env\<lparr>GetBlockByNumber :=
       (\<lambda>n. if n = 1 then Inl ''archive unavailable''
            else if n < 3 then Inr (example_block n) else Inl ''no such block'')\<rparr>"

text \<open>A ledger that holds the genesis block only.\<close>

definition genesis_info :: BlockchainInfo where
  "genesis_info = \<lparr>Height = 1, CurrentBlockHash = [0], PreviousBlockHash = []\<rparr>"

definition genesis_env :: ledger_env where
  "genesis_env =
     example_env\<lparr>GetBlockchainInfo := Inr genesis_info\<rparr>"



definition example_fsck :: ledgerFsck where
  "example_fsck =
     \<lparr>channelName = ''mychannel'', mspConfigPath = ''/etc/msp'', mspID = ''Org1MSP'',
      mspType = ''bccsp''\<rparr>"

section \<open>Properties of the configuration accessors\<close>

text \<open>
  C5. \<open>GetMaxBlockfileSize\<close> returns the configured \<open>ledger.maxBlockfileSize\<close> when the
  key is set, and 64 * 1024 * 1024 = 67108864 bytes when it is not.
\<close>

theorem GetMaxBlockfileSize_default:
  "GetMaxBlockfileSize v =
     (if viper_IsSet v ''ledger.maxBlockfileSize''
      then viper_GetInt v ''ledger.maxBlockfileSize'' else 67108864)"
  by (simp add: GetMaxBlockfileSize_def confMaxBlockfileSize_def)

theorem GetMaxBlockfileSize_default_witness:
  "GetMaxBlockfileSize unset_viper = 67108864 \<and>
   GetMaxBlockfileSize set_viper = 1024"
  using GetMaxBlockfileSize_default [of unset_viper] GetMaxBlockfileSize_default [of set_viper]
  by (simp add: set_viper_def unset_viper_def)

text \<open>
  C4. \<open>GetArchivingParameters\<close> returns the pair (each, keep): the configured
  \<open>peer.archiver.each\<close>, or 30 when that key is not set, and the configured
  \<open>peer.archiver.keep\<close>, or 10 when that key is not set. The archiver initialisation
  stores the first component as the number of block files archived per sweep and the
  second as the number of block files kept.
\<close>

theorem GetArchivingParameters_defaults:
  "GetArchivingParameters v =
     (if viper_IsSet v ''peer.archiver.each'' then viper_GetInt v ''peer.archiver.each'' else 30,
      if viper_IsSet v ''peer.archiver.keep'' then viper_GetInt v ''peer.archiver.keep'' else 10)
   \<and> (viper_GetBool v ''peer.archiver.enabled'' \<longrightarrow>
        NumBlockfileEachArchiving (initBlockArchiverParams v g) = fst (GetArchivingParameters v) \<and>
        NumKeepLatestBlocks (initBlockArchiverParams v g) = snd (GetArchivingParameters v))"
  by (simp add: GetArchivingParameters_def initBlockArchiverParams_def confArchiverEach_def
      confArchiverKeep_def defaultArchiverEach_def defaultArchiverKeep_def Let_def)

theorem GetArchivingParameters_defaults_witness:
  "GetArchivingParameters archiver_viper = (30, 10) \<and>
   GetArchivingParameters set_viper = (1024, 1024) \<and>
   viper_GetBool archiver_viper ''peer.archiver.enabled'' \<and>
   NumBlockfileEachArchiving (initBlockArchiverParams archiver_viper zero_blockarchive) = 30 \<and>
   NumKeepLatestBlocks (initBlockArchiverParams archiver_viper zero_blockarchive) = 10"
  using GetArchivingParameters_defaults [of archiver_viper zero_blockarchive]
    GetArchivingParameters_defaults [of set_viper zero_blockarchive]
  by (simp add: archiver_viper_def set_viper_def unset_viper_def)

text \<open>
  C10. The archive endpoint is the configured \<open>ledger.blockArchiver.url\<close>, or the fixed
  string \<open>ledger-bank:222\<close> when that key is not set; the archive root directory is the
  configured \<open>ledger.blockArchiver.dir\<close>, or \<open>/tmp\<close> when that key is not set.
\<close>

theorem GetBlockArchiver_defaults:
  "GetBlockArchiverURL v =
     (if viper_IsSet v ''ledger.blockArchiver.url''
      then viper_GetString v ''ledger.blockArchiver.url'' else ''ledger-bank:222'') \<and>
   GetBlockArchiverDir v =
     (if viper_IsSet v ''ledger.blockArchiver.dir''
      then viper_GetString v ''ledger.blockArchiver.dir'' else ''/tmp'')"
  by (simp add: GetBlockArchiverURL_def GetBlockArchiverDir_def confBlockArchiverURL_def
      confBlockArchiverDir_def defaultBlockArchiverURL_def defaultBlockArchiverDir_def)

theorem GetBlockArchiver_defaults_witness:
  "GetBlockArchiverURL unset_viper = ''ledger-bank:222'' \<and>
   GetBlockArchiverDir unset_viper = ''/tmp'' \<and>
   GetBlockArchiverURL set_viper = ''archive:9000'' \<and>
   GetBlockArchiverDir set_viper = ''archive:9000''"
  using GetBlockArchiver_defaults [of unset_viper] GetBlockArchiver_defaults [of set_viper]
  by (simp add: set_viper_def unset_viper_def)

section \<open>Properties of the archiver initialisation\<close>







section \<open>Properties of the command line\<close>

text \<open>
  C7, as the specification words it. A run that supplies the three inputs under the
  names \<open>--channel\<close>, \<open>--msp-path\<close> and \<open>--msp-id\<close> does not get past argument parsing:
  no flag \<open>channel\<close> is registered, so parsing fails at the first argument and the process
  ends with code 2.
\<close>

theorem spec_flag_names_rejected_counterexample:
  "ReadConfiguration
     [''--channel'', ''mychannel'', ''--msp-path'', ''/etc/msp'', ''--msp-id'', ''Org1MSP'']
     zero_ledgerFsck [] =
   Inl (Exit 2,
        [Flag_failf ''flag provided but not defined: -%s'' [ArgStr ''channel''], Flag_usage])"
  by (simp add: ReadConfiguration_def flag_StringVar_def parseOne_def split_value_def Let_def)

text \<open>
  C7, as the code has it. The flags are named \<open>channelName\<close>, \<open>mspPath\<close> and \<open>mspID\<close>
  (a fourth, \<open>mspType\<close>, defaults to \<open>bccsp\<close>). A run that supplies exactly these three,
  with a non-empty MSP path and a non-empty MSP identity, gets past argument parsing:
  \<open>ReadConfiguration\<close> returns no error, with the three values stored in the checker.
\<close>

theorem ReadConfiguration_accepts_flags:
  assumes "p \<noteq> []" and "i \<noteq> []"
  shows "ReadConfiguration [''--channelName'', c, ''--mspPath'', p, ''--mspID'', i] fsck tr =
     Inr (None,
          fsck\<lparr>channelName := c, mspConfigPath := p, mspID := i, mspType := ''bccsp''\<rparr>,
          tr @ [Log Debug ''channel name = %s'' [ArgStr c],
                Log Debug ''MSP folder path = %s'' [ArgStr p],
                Log Debug ''MSPID = %s'' [ArgStr i],
                Log Debug ''MSP type = %s'' [ArgStr ''bccsp'']])"
  using assms
  by (simp add: ReadConfiguration_def flag_StringVar_def parseOne_def split_value_def Let_def)

theorem ReadConfiguration_accepts_flags_witness:
  "''/etc/msp'' \<noteq> [] \<and> ''Org1MSP'' \<noteq> [] \<and>
   ReadConfiguration
     [''--channelName'', ''mychannel'', ''--mspPath'', ''/etc/msp'', ''--mspID'', ''Org1MSP'']
     zero_ledgerFsck [] =
   Inr (None,
        zero_ledgerFsck\<lparr>channelName := ''mychannel'', mspConfigPath := ''/etc/msp'',
          mspID := ''Org1MSP'', mspType := ''bccsp''\<rparr>,
        [Log Debug ''channel name = %s'' [ArgStr ''mychannel''],
         Log Debug ''MSP folder path = %s'' [ArgStr ''/etc/msp''],
         Log Debug ''MSPID = %s'' [ArgStr ''Org1MSP''],
         Log Debug ''MSP type = %s'' [ArgStr ''bccsp'']])"
proof -
  have a: "''/etc/msp'' \<noteq> []" and b: "''Org1MSP'' \<noteq> []"
    by simp_all
  show ?thesis
    using a b ReadConfiguration_accepts_flags [OF a b, of "''mychannel''" zero_ledgerFsck "[]"]
    by simp
qed

section \<open>Properties of the sweep\<close>

subsection \<open>Block numbers\<close>

lemma unat_succ:
  fixes i h :: "64 word"
  assumes "i < h"
  shows "unat (i + 1) = Suc (unat i)"
proof -
  have "unat i < unat h"
    using assms by (simp add: word_less_nat_alt)
  moreover have "unat h < 2 ^ 64"
    using unsigned_less [of h, where ?'a = nat] by simp
  ultimately have "unat i + 1 < 2 ^ 64"
    by simp
  then show ?thesis
    by (simp add: unat_word_ariths)
qed

lemma succ_le_iff:
  fixes i h n :: "64 word"
  assumes "i < h"
  shows "i + 1 \<le> n \<longleftrightarrow> i < n"
  using unat_succ [OF assms] by (simp add: word_le_nat_alt word_less_nat_alt Suc_le_eq)

lemma loop_induct [case_names finished step]:
  fixes h :: "64 word"
  assumes base: "\<And>i p. \<not> i < h \<Longrightarrow> P i p"
    and step: "\<And>i p. i < h \<Longrightarrow> (\<And>p'. P (i + 1) p') \<Longrightarrow> P i p"
  shows "P i p"
proof (induction "unat h - unat i" arbitrary: i p)
  case 0
  then have "\<not> i < h"
    by (simp add: word_less_nat_alt)
  then show ?case by (rule base)
next
  case (Suc d)
  then have lt: "i < h"
    by (simp add: word_less_nat_alt)
  have d: "d = unat h - unat (i + 1)"
    using Suc.hyps(2) unat_succ [OF lt] by simp
  show ?case
    by (rule step [OF lt]) (rule Suc.hyps(1) [OF d])
qed

subsection \<open>The trace a run starts with is only extended\<close>

declare verify_loop.simps [simp del]

lemma verify_body_append:
  "verify_body e fsck i p tr =
     (case verify_body e fsck i p [] of
        Inl (oc, new) \<Rightarrow> Inl (oc, tr @ new)
      | Inr (p', new) \<Rightarrow> Inr (p', tr @ new))"
  by (simp add: verify_body_def fail_exit_def Let_def split: sum.splits option.splits)

lemma verify_loop_done: "\<not> i < h \<Longrightarrow> verify_loop e fsck h i p tr = (Return, tr)"
  by (subst verify_loop.simps) simp

lemma verify_loop_append:
  "verify_loop e fsck h i p tr =
     (case verify_loop e fsck h i p [] of (oc, new) \<Rightarrow> (oc, tr @ new))"
proof (induction i p arbitrary: tr rule: loop_induct [where h = h])
  case (finished i p)
  then show ?case by (simp add: verify_loop_done)
next
  case (step i p)
  show ?case
  proof (cases "verify_body e fsck i p []")
    case (Inl stop)
    then show ?thesis
      using step.hyps
      by (subst (1 2) verify_loop.simps)
        (simp add: verify_body_append [of e fsck i p tr] split: prod.splits)
  next
    case (Inr cont)
    obtain p' new where cont: "cont = (p', new)" by (cases cont)
    have a: "verify_loop e fsck h (i + 1) p' (tr @ new) =
              (case verify_loop e fsck h (i + 1) p' [] of (oc, n2) \<Rightarrow> (oc, (tr @ new) @ n2))"
      by (rule step.IH)
    have b: "verify_loop e fsck h (i + 1) p' new =
              (case verify_loop e fsck h (i + 1) p' [] of (oc, n2) \<Rightarrow> (oc, new @ n2))"
      by (rule step.IH)
    show ?thesis
      using step.hyps Inr cont a b
      by (subst (1 2) verify_loop.simps)
        (simp add: verify_body_append [of e fsck i p tr] split: prod.splits)
  qed
qed

lemma verify_loop_stop:
  assumes "i < h" and "verify_body e fsck i p [] = Inl stop"
  shows "verify_loop e fsck h i p [] = stop"
  using assms by (subst verify_loop.simps) simp

lemma verify_loop_cont:
  assumes "i < h" and "verify_body e fsck i p [] = Inr (p', new)"
  shows "verify_loop e fsck h i p [] =
           (case verify_loop e fsck h (i + 1) p' [] of (oc, n2) \<Rightarrow> (oc, new @ n2))"
  using assms verify_loop_append [of e fsck h "i + 1" p' new]
  by (subst verify_loop.simps) simp

subsection \<open>One pass through the loop\<close>




lemma verify_body_unreadable:
  assumes "GetBlockByNumber e i = Inl err"
  shows "verify_body e fsck i p [] =
           Inl (Exit (- 1),
                [Call_GetBlockByNumber i,
                 Log Debug ''failed to read block number %d from ledger, with error''
                   [ArgU64 i, ArgErr err],
                 Log Info ''FAIL'' []])"
  using assms by (simp add: verify_body_def fail_exit_def Let_def)

lemma verify_body_reads_Inl:
  assumes "verify_body e fsck i p [] = Inl (oc, new)"
    and "Call_GetBlockByNumber n \<in> set new"
  shows "n = i"
  using assms
  by (auto simp: verify_body_def fail_exit_def Let_def split: sum.splits option.splits if_splits)

lemma verify_body_reads_Inr:
  assumes "verify_body e fsck i p [] = Inr (p', new)"
    and "Call_GetBlockByNumber n \<in> set new"
  shows "n = i"
  using assms
  by (auto simp: verify_body_def fail_exit_def Let_def split: sum.splits option.splits if_splits)

lemma verify_body_Inr_readable:
  assumes "verify_body e fsck i p [] = Inr (p', new)"
  shows "\<exists>b. GetBlockByNumber e i = Inr b"
  using assms
  by (auto simp: verify_body_def fail_exit_def Let_def split: sum.splits option.splits if_splits)

lemma verify_body_verifies_Inl:
  assumes "verify_body e fsck i p [] = Inl (oc, new)"
    and "Call_VerifyBlock ch num sb \<in> set new"
  shows "\<exists>b. GetBlockByNumber e i = Inr b \<and> ch = channelName fsck \<and>
             num = Number (Header b) \<and> Marshal e b = Inr sb"
  using assms
  by (auto simp: verify_body_def fail_exit_def Let_def split: sum.splits option.splits if_splits)

lemma verify_body_verifies_Inr:
  assumes "verify_body e fsck i p [] = Inr (p', new)"
    and "Call_VerifyBlock ch num sb \<in> set new"
  shows "\<exists>b. GetBlockByNumber e i = Inr b \<and> ch = channelName fsck \<and>
             num = Number (Header b) \<and> Marshal e b = Inr sb"
  using assms
  by (auto simp: verify_body_def fail_exit_def Let_def split: sum.splits option.splits if_splits)

subsection \<open>The loop\<close>







lemma verify_loop_unreadable:
  assumes "Call_GetBlockByNumber n \<in> set (snd (verify_loop e fsck h i p []))"
    and "GetBlockByNumber e n = Inl err"
  shows "\<exists>pre. verify_loop e fsck h i p [] =
                 (Exit (- 1),
                  pre @ [Call_GetBlockByNumber n,
                         Log Debug ''failed to read block number %d from ledger, with error''
                           [ArgU64 n, ArgErr err],
                         Log Info ''FAIL'' []])"
  using assms
proof (induction i p rule: loop_induct [where h = h])
  case (finished i p)
  then show ?case by (simp add: verify_loop_done)
next
  case (step i p)
  show ?case
  proof (cases "verify_body e fsck i p []")
    case (Inl stop)
    obtain oc new where stop: "stop = (oc, new)" by (cases stop)
    have loop: "verify_loop e fsck h i p [] = (oc, new)"
      using verify_loop_stop [OF step.hyps Inl] stop by simp
    with step.prems(1) have "Call_GetBlockByNumber n \<in> set new"
      by simp
    then have "n = i"
      using verify_body_reads_Inl Inl stop by blast
    then have "verify_loop e fsck h i p [] =
                 (Exit (- 1),
                  [] @ [Call_GetBlockByNumber n,
                        Log Debug ''failed to read block number %d from ledger, with error''
                          [ArgU64 n, ArgErr err],
                        Log Info ''FAIL'' []])"
      using verify_loop_stop [OF step.hyps verify_body_unreadable [of e i err fsck p]]
        step.prems(2)
      by simp
    then show ?thesis by blast
  next
    case (Inr cont)
    obtain p' new where cont: "cont = (p', new)" by (cases cont)
    have body: "verify_body e fsck i p [] = Inr (p', new)"
      using Inr cont by simp
    obtain oc n2 where rest: "verify_loop e fsck h (i + 1) p' [] = (oc, n2)"
      by (cases "verify_loop e fsck h (i + 1) p' []")
    have loop: "verify_loop e fsck h i p [] = (oc, new @ n2)"
      using verify_loop_cont [OF step.hyps body] rest by simp
    have "n \<noteq> i"
      using verify_body_Inr_readable [OF body] step.prems(2) by auto
    then have "Call_GetBlockByNumber n \<notin> set new"
      using verify_body_reads_Inr [OF body] by blast
    with step.prems(1) loop have "Call_GetBlockByNumber n \<in> set n2"
      by simp
    then have "Call_GetBlockByNumber n \<in> set (snd (verify_loop e fsck h (i + 1) p' []))"
      using rest by simp
    from step.IH [OF this step.prems(2)] obtain pre
      where "verify_loop e fsck h (i + 1) p' [] =
               (Exit (- 1),
                pre @ [Call_GetBlockByNumber n,
                       Log Debug ''failed to read block number %d from ledger, with error''
                         [ArgU64 n, ArgErr err],
                       Log Info ''FAIL'' []])"
      by blast
    with rest loop have "verify_loop e fsck h i p [] =
               (Exit (- 1),
                (new @ pre) @ [Call_GetBlockByNumber n,
                       Log Debug ''failed to read block number %d from ledger, with error''
                         [ArgU64 n, ArgErr err],
                       Log Info ''FAIL'' []])"
      by simp
    then show ?thesis by blast
  qed
qed

lemma verify_loop_verifies:
  assumes "Call_VerifyBlock ch num sb \<in> set (snd (verify_loop e fsck h i p []))"
  shows "\<exists>n b. i \<le> n \<and> n < h \<and> GetBlockByNumber e n = Inr b \<and> ch = channelName fsck \<and>
               num = Number (Header b) \<and> Marshal e b = Inr sb"
  using assms
proof (induction i p rule: loop_induct [where h = h])
  case (finished i p)
  then show ?case by (simp add: verify_loop_done)
next
  case (step i p)
  have here: "\<exists>b. GetBlockByNumber e i = Inr b \<and> ch = channelName fsck \<and>
                 num = Number (Header b) \<and> Marshal e b = Inr sb \<Longrightarrow> ?case"
    using step.hyps by auto
  have later: "\<exists>n b. i + 1 \<le> n \<and> n < h \<and> GetBlockByNumber e n = Inr b \<and>
                 ch = channelName fsck \<and> num = Number (Header b) \<and> Marshal e b = Inr sb
               \<Longrightarrow> ?case"
  proof -
    assume "\<exists>n b. i + 1 \<le> n \<and> n < h \<and> GetBlockByNumber e n = Inr b \<and>
                 ch = channelName fsck \<and> num = Number (Header b) \<and> Marshal e b = Inr sb"
    then obtain n b where nb: "i + 1 \<le> n" "n < h" "GetBlockByNumber e n = Inr b"
        "ch = channelName fsck" "num = Number (Header b)" "Marshal e b = Inr sb"
      by blast
    from nb(1) have "i < n"
      using succ_le_iff [OF step.hyps] by simp
    then have "i \<le> n"
      by simp
    with nb show ?case
      by blast
  qed
  show ?case
  proof (cases "verify_body e fsck i p []")
    case (Inl stop)
    obtain oc new where stop: "stop = (oc, new)" by (cases stop)
    have "verify_loop e fsck h i p [] = (oc, new)"
      using verify_loop_stop [OF step.hyps Inl] stop by simp
    with step.prems have "Call_VerifyBlock ch num sb \<in> set new"
      by simp
    then show ?thesis
      using verify_body_verifies_Inl Inl stop here by blast
  next
    case (Inr cont)
    obtain p' new where cont: "cont = (p', new)" by (cases cont)
    have body: "verify_body e fsck i p [] = Inr (p', new)"
      using Inr cont by simp
    obtain oc n2 where rest: "verify_loop e fsck h (i + 1) p' [] = (oc, n2)"
      by (cases "verify_loop e fsck h (i + 1) p' []")
    have "verify_loop e fsck h i p [] = (oc, new @ n2)"
      using verify_loop_cont [OF step.hyps body] rest by simp
    with step.prems
    consider "Call_VerifyBlock ch num sb \<in> set new" | "Call_VerifyBlock ch num sb \<in> set n2"
      by auto
    then show ?thesis
    proof cases
      case 1
      then show ?thesis
        using verify_body_verifies_Inr [OF body] here by blast
    next
      case 2
      then have "Call_VerifyBlock ch num sb \<in> set (snd (verify_loop e fsck h (i + 1) p' []))"
        using rest by simp
      from step.IH [OF this] show ?thesis
        by (rule later)
    qed
  qed
qed

subsection \<open>The whole run\<close>



lemma Verify_sweep_eq:
  assumes "GetBlockchainInfo e = Inr info" and "GetLocalSigningIdentity e = None"
    and "GetBlockByNumber e 0 = Inr b0"
    and "verify_loop e fsck (Height info) 1 (BlockHeaderHash e (Header b0)) [] = (oc, new)"
  shows "Verify e fsck tr =
           (oc, tr @ Verify_start fsck info @ new @
                (if oc = Return then [Log Info ''PASS'' []] else []))"
  using assms
    verify_loop_append [of e fsck "Height info" 1 "BlockHeaderHash e (Header b0)"
      "tr @ Verify_start fsck info"]
  by (cases oc) (simp_all add: Verify_def Verify_start_def Let_def)





text \<open>
  C6. When a block read made by the sweep returns an error, whatever its cause, the
  sweep stops there: the read is the last call the run makes, it is followed only by a
  debug line carrying the error and by \<open>FAIL\<close>, and the process ends with code -1.
\<close>

theorem Verify_read_error_aborts:
  assumes "Call_GetBlockByNumber n \<in> set (snd (Verify e fsck []))"
    and "GetBlockByNumber e n = Inl err"
  shows "fst (Verify e fsck []) = Exit (- 1) \<and>
         process_status (fst (Verify e fsck [])) \<noteq> 0 \<and>
         (\<exists>pre fmt as.
            snd (Verify e fsck []) =
              pre @ [Call_GetBlockByNumber n, Log Debug fmt as, Log Info ''FAIL'' []] \<and>
            ArgErr err \<in> set as)"
proof (cases "GetBlockchainInfo e")
  case (Inl err0)
  with assms(1) show ?thesis
    by (simp add: Verify_def fail_exit_def Let_def)
next
  case (Inr info)
  show ?thesis
  proof (cases "GetLocalSigningIdentity e")
    case (Some err1)
    with Inr assms(1) show ?thesis
      by (simp add: Verify_def Let_def)
  next
    case None
    show ?thesis
    proof (cases "GetBlockByNumber e 0")
      case (Inl err0)
      have V: "Verify e fsck [] =
                 (Exit (- 1),
                  [Call_GetBlockchainInfo,
                   Log Debug (''ledger height of channel %s, is %d'' @ [CHR 0x0A])
                     [ArgStr (channelName fsck), ArgU64 (Height info)],
                   Call_GetLocalSigningIdentityOrPanic] @
                  [Call_GetBlockByNumber 0,
                   Log Debug ''failed to read genesis block number, with error'' [ArgErr err0],
                   Log Info ''FAIL'' []])"
        using Inr None Inl by (simp add: Verify_def fail_exit_def Let_def)
      with assms(1) have "n = 0"
        by simp
      with Inl assms(2) have "err0 = err"
        by simp
      with V \<open>n = 0\<close> show ?thesis
        by (intro conjI exI [of _ "[Call_GetBlockchainInfo,
                   Log Debug (''ledger height of channel %s, is %d'' @ [CHR 0x0A])
                     [ArgStr (channelName fsck), ArgU64 (Height info)],
                   Call_GetLocalSigningIdentityOrPanic]"]
              exI [of _ "''failed to read genesis block number, with error''"]
              exI [of _ "[ArgErr err]"]) simp_all
    next
      case b0: (Inr b0)
      obtain oc new
        where loop: "verify_loop e fsck (Height info) 1 (BlockHeaderHash e (Header b0)) [] =
                       (oc, new)"
        by (cases "verify_loop e fsck (Height info) 1 (BlockHeaderHash e (Header b0)) []")
      have V: "Verify e fsck [] =
                 (oc, [] @ Verify_start fsck info @ new @
                      (if oc = Return then [Log Info ''PASS'' []] else []))"
        by (rule Verify_sweep_eq [OF Inr None b0 loop])
      have "n \<noteq> 0"
        using b0 assms(2) by auto
      with assms(1) V have "Call_GetBlockByNumber n \<in> set new"
        by (auto simp: Verify_start_def split: if_splits)
      then have "Call_GetBlockByNumber n \<in>
                   set (snd (verify_loop e fsck (Height info) 1
                               (BlockHeaderHash e (Header b0)) []))"
        using loop by simp
      from verify_loop_unreadable [OF this assms(2)] loop obtain pre
        where oc: "oc = Exit (- 1)"
          and new: "new = pre @ [Call_GetBlockByNumber n,
                         Log Debug ''failed to read block number %d from ledger, with error''
                           [ArgU64 n, ArgErr err],
                         Log Info ''FAIL'' []]"
        by auto
      from V oc new show ?thesis
        by (intro conjI exI [of _ "Verify_start fsck info @ pre"]
              exI [of _ "''failed to read block number %d from ledger, with error''"]
              exI [of _ "[ArgU64 n, ArgErr err]"]) simp_all
    qed
  qed
qed

theorem Verify_read_error_aborts_witness:
  "Call_GetBlockByNumber 1 \<in> set (snd (Verify unavailable_env example_fsck [])) \<and>
   GetBlockByNumber unavailable_env 1 = Inl ''archive unavailable'' \<and>
   fst (Verify unavailable_env example_fsck []) = Exit (- 1) \<and>
   (\<exists>pre fmt as.
      snd (Verify unavailable_env example_fsck []) =
        pre @ [Call_GetBlockByNumber 1, Log Debug fmt as, Log Info ''FAIL'' []] \<and>
      ArgErr ''archive unavailable'' \<in> set as)"
proof -
  have a: "Call_GetBlockByNumber 1 \<in> set (snd (Verify unavailable_env example_fsck []))"
    by (simp add: Verify_def unavailable_env_def example_env_def example_info_def
        verify_loop.simps verify_body_def fail_exit_def Let_def)
  have b: "GetBlockByNumber unavailable_env 1 = Inl ''archive unavailable''"
    by (simp add: unavailable_env_def)
  show ?thesis
    using a b Verify_read_error_aborts [OF a b] by blast
qed

text \<open>
  C9. The verification of a block is called only for a block read inside the loop, at an
  index from 1 to height - 1; block 0 is read before the loop and only hashed. On a
  ledger of height 1 whose block 0 can be read, the run reads block 0, logs \<open>PASS\<close> and
  returns: it makes no comparison of hashes and no verification.
\<close>

theorem Verify_never_verifies_genesis:
  "(Call_VerifyBlock ch num sb \<in> set (snd (Verify e fsck [])) \<longrightarrow>
      (\<exists>info n b. GetBlockchainInfo e = Inr info \<and> 1 \<le> n \<and> n < Height info \<and>
         GetBlockByNumber e n = Inr b \<and> num = Number (Header b) \<and> Marshal e b = Inr sb)) \<and>
   (GetBlockchainInfo e = Inr info1 \<and> Height info1 = 1 \<and> GetLocalSigningIdentity e = None \<and>
    GetBlockByNumber e 0 = Inr b0 \<longrightarrow>
      Verify e fsck [] =
        (Return,
         [Call_GetBlockchainInfo,
          Log Debug (''ledger height of channel %s, is %d'' @ [CHR 0x0A])
            [ArgStr (channelName fsck), ArgU64 1],
          Call_GetLocalSigningIdentityOrPanic,
          Call_GetBlockByNumber 0,
          Log Info ''PASS'' []]))"
proof (intro conjI impI)
  assume v: "Call_VerifyBlock ch num sb \<in> set (snd (Verify e fsck []))"
  show "\<exists>info n b. GetBlockchainInfo e = Inr info \<and> 1 \<le> n \<and> n < Height info \<and>
          GetBlockByNumber e n = Inr b \<and> num = Number (Header b) \<and> Marshal e b = Inr sb"
  proof (cases "GetBlockchainInfo e")
    case (Inl err0)
    with v show ?thesis
      by (simp add: Verify_def fail_exit_def Let_def)
  next
    case (Inr info)
    show ?thesis
    proof (cases "GetLocalSigningIdentity e")
      case (Some err1)
      with Inr v show ?thesis
        by (simp add: Verify_def Let_def)
    next
      case None
      show ?thesis
      proof (cases "GetBlockByNumber e 0")
        case (Inl err0)
        with Inr None v show ?thesis
          by (simp add: Verify_def fail_exit_def Let_def)
      next
        case b0: (Inr b0)
        obtain oc new
          where loop: "verify_loop e fsck (Height info) 1 (BlockHeaderHash e (Header b0)) [] =
                         (oc, new)"
          by (cases "verify_loop e fsck (Height info) 1 (BlockHeaderHash e (Header b0)) []")
        have V: "Verify e fsck [] =
                   (oc, [] @ Verify_start fsck info @ new @
                        (if oc = Return then [Log Info ''PASS'' []] else []))"
          by (rule Verify_sweep_eq [OF Inr None b0 loop])
        with v have "Call_VerifyBlock ch num sb \<in> set new"
          by (auto simp: Verify_start_def split: if_splits)
        then have "Call_VerifyBlock ch num sb \<in>
                     set (snd (verify_loop e fsck (Height info) 1
                                 (BlockHeaderHash e (Header b0)) []))"
          using loop by simp
        from verify_loop_verifies [OF this] Inr show ?thesis
          by blast
      qed
    qed
  qed
next
  assume h: "GetBlockchainInfo e = Inr info1 \<and> Height info1 = 1 \<and>
             GetLocalSigningIdentity e = None \<and> GetBlockByNumber e 0 = Inr b0"
  then have loop: "verify_loop e fsck (Height info1) 1 (BlockHeaderHash e (Header b0)) [] =
                     (Return, [])"
    by (simp add: verify_loop_done)
  from h have "Verify e fsck [] =
                 (Return, [] @ Verify_start fsck info1 @ [] @
                      (if Return = Return then [Log Info ''PASS'' []] else []))"
    using Verify_sweep_eq [OF _ _ _ loop] by blast
  with h show "Verify e fsck [] =
        (Return,
         [Call_GetBlockchainInfo,
          Log Debug (''ledger height of channel %s, is %d'' @ [CHR 0x0A])
            [ArgStr (channelName fsck), ArgU64 1],
          Call_GetLocalSigningIdentityOrPanic,
          Call_GetBlockByNumber 0,
          Log Info ''PASS'' []])"
    by (simp add: Verify_start_def)
qed

theorem Verify_never_verifies_genesis_witness:
  "Call_VerifyBlock ''mychannel'' 1 [1] \<in> set (snd (Verify example_env example_fsck [])) \<and>
   (\<exists>info n b. GetBlockchainInfo example_env = Inr info \<and> 1 \<le> n \<and> n < Height info \<and>
      GetBlockByNumber example_env n = Inr b \<and> 1 = Number (Header b) \<and>
      Marshal example_env b = Inr [1]) \<and>
   GetBlockchainInfo genesis_env = Inr genesis_info \<and> Height genesis_info = 1 \<and>
   GetLocalSigningIdentity genesis_env = None \<and>
   GetBlockByNumber genesis_env 0 = Inr (example_block 0) \<and>
   Verify genesis_env example_fsck [] =
     (Return,
      [Call_GetBlockchainInfo,
       Log Debug (''ledger height of channel %s, is %d'' @ [CHR 0x0A])
         [ArgStr ''mychannel'', ArgU64 1],
       Call_GetLocalSigningIdentityOrPanic,
       Call_GetBlockByNumber 0,
       Log Info ''PASS'' []])"
proof -
  have a: "Call_VerifyBlock ''mychannel'' 1 [1] \<in>
             set (snd (Verify example_env example_fsck []))"
    by (simp add: Verify_def example_env_def example_info_def example_fsck_def
        example_block_def verify_loop.simps verify_body_def fail_exit_def Let_def)
  have g: "GetBlockchainInfo genesis_env = Inr genesis_info \<and> Height genesis_info = 1 \<and>
           GetLocalSigningIdentity genesis_env = None \<and>
           GetBlockByNumber genesis_env 0 = Inr (example_block 0)"
    by (simp add: genesis_env_def genesis_info_def example_env_def)
  have n: "channelName example_fsck = ''mychannel''"
    by (simp add: example_fsck_def)
  show ?thesis
    using a g n
      Verify_never_verifies_genesis
        [of "''mychannel''" 1 "[1]" example_env example_fsck genesis_info "example_block 0"]
      Verify_never_verifies_genesis
        [of "''mychannel''" 1 "[1]" genesis_env example_fsck genesis_info "example_block 0"]
    by simp
qed

subsection \<open>The command\<close>









end
